theory Spec2Isabelle
  imports Complex_Main
begin

section \<open>Python values\<close>

text \<open>
  A Python \<open>str\<close> is modelled by a \<open>string\<close>: the bytes of its UTF-8 encoding. The
  services only compare strings for equality, concatenate them and test containment, and
  the encoding is injective and preserves all three. A \<open>datetime\<close> is the number of
  microseconds on one time line, on which the clock readings and the expiry times read
  from the store are compared; a \<open>timedelta\<close> is a number of microseconds.
\<close>

type_synonym datetime = int

definition timedelta_days :: "int \<Rightarrow> int" where
  "timedelta_days d = d * 86400000000"

text \<open>
  The exceptions the services raise or let through. A \<open>ValueError\<close> carries its message
  (\<open>loginUser\<close> tells its two failures apart by it), a \<open>KeyError\<close> its argument, an
  \<open>HTTPStatusError\<close> the status of the response.
\<close>

datatype exn =
    ValueError string
  | KeyError string
  | AttributeError string
  | ValidationError string
  | HTTPStatusError nat
  | UniqueViolationError string
  | ForeignKeyViolationError string

fun exn_str :: "exn \<Rightarrow> string" where
  "exn_str (ValueError m) = m"
| "exn_str (KeyError k) = k"
| "exn_str (AttributeError m) = m"
| "exn_str (ValidationError m) = m"
| "exn_str (HTTPStatusError n) = ''HTTP status error''"
| "exn_str (UniqueViolationError f) = ''Unique constraint failed on the fields: '' @ f"
| "exn_str (ForeignKeyViolationError f) = ''Foreign key constraint failed on the field: '' @ f"

section \<open>The persistence gateway\<close>

datatype Role = ADMIN | USER | SERVICE_MANAGER

text \<open>
  The four record kinds of the store. The primary key, \<open>id\<close> in each model of the
  source, is \<open>eid\<close>, \<open>xid\<close>, \<open>uid\<close> and \<open>sid\<close> here.
\<close>

record Emoji =
  eid :: int
  symbol :: string

record Explanation =
  xid :: int
  content :: string
  emojiId :: int
  updatedBy :: int

record User =
  uid :: int
  username :: string
  password :: string
  email :: string
  role :: Role

record Session =
  sid :: int
  userId :: int
  expiresAt :: datetime

record store =
  emojis :: "Emoji list"
  explanations :: "Explanation list"
  users :: "User list"
  sessions :: "Session list"

text \<open>
  Modelled from the spec: the schema and the generated database client
  (\<open>prisma.models\<close>) are not among the sources. Each table is the list of its rows in
  insertion order; \<open>Emoji.symbol\<close> and \<open>User.email\<close> are unique,
  \<open>Explanation.emojiId\<close> and \<open>Session.userId\<close> are foreign keys, and a created row
  gets an id that no row of its table has.
\<close>

definition fresh_id :: "int list \<Rightarrow> int" where
  "fresh_id ids = foldr max ids 0 + 1"

definition find_unique_emoji :: "store \<Rightarrow> string \<Rightarrow> Emoji option" where
  "find_unique_emoji st s = find (\<lambda>e. symbol e = s) (emojis st)"

text \<open>
  Modelled from the spec: \<open>include={"explanations": True}\<close> loads the Explanation rows
  that reference the Emoji, here in the order of the table.
\<close>

definition include_explanations :: "store \<Rightarrow> Emoji \<Rightarrow> Explanation list" where
  "include_explanations st e = filter (\<lambda>x. emojiId x = eid e) (explanations st)"

definition create_emoji :: "store \<Rightarrow> string \<Rightarrow> exn + Emoji \<times> store" where
  "create_emoji st s =
     (if find_unique_emoji st s \<noteq> None then Inl (UniqueViolationError ''symbol'')
      else
        let e = \<lparr>eid = fresh_id (map eid (emojis st)), symbol = s\<rparr>
        in Inr (e, st\<lparr>emojis := emojis st @ [e]\<rparr>))"

definition create_explanation :: "store \<Rightarrow> string \<Rightarrow> int \<Rightarrow> int \<Rightarrow> exn + Explanation \<times> store" where
  "create_explanation st c e author =
     (if e \<notin> set (map eid (emojis st)) then Inl (ForeignKeyViolationError ''emojiId'')
      else
        let x = \<lparr>xid = fresh_id (map xid (explanations st)), content = c, emojiId = e,
                 updatedBy = author\<rparr>
        in Inr (x, st\<lparr>explanations := explanations st @ [x]\<rparr>))"

text \<open>
  Modelled from the spec: the User and Session tables of the same absent client, with
  \<open>find_unique\<close> by e-mail address and by id, \<open>create\<close> and the \<open>update\<close> of a
  Session's expiry.
\<close>

definition find_unique_user_by_email :: "store \<Rightarrow> string \<Rightarrow> User option" where
  "find_unique_user_by_email st e = find (\<lambda>u. email u = e) (users st)"

definition find_unique_user_by_id :: "store \<Rightarrow> int \<Rightarrow> User option" where
  "find_unique_user_by_id st i = find (\<lambda>u. uid u = i) (users st)"

definition create_user :: "store \<Rightarrow> string \<Rightarrow> string \<Rightarrow> string \<Rightarrow> Role \<Rightarrow> exn + User \<times> store" where
  "create_user st n p e r =
     (if find_unique_user_by_email st e \<noteq> None then Inl (UniqueViolationError ''email'')
      else
        let u = \<lparr>uid = fresh_id (map uid (users st)), username = n, password = p, email = e,
                 role = r\<rparr>
        in Inr (u, st\<lparr>users := users st @ [u]\<rparr>))"

definition find_unique_session :: "store \<Rightarrow> int \<Rightarrow> Session option" where
  "find_unique_session st i = find (\<lambda>s. sid s = i) (sessions st)"

definition create_session :: "store \<Rightarrow> int \<Rightarrow> datetime \<Rightarrow> exn + Session \<times> store" where
  "create_session st u t =
     (if u \<notin> set (map uid (users st)) then Inl (ForeignKeyViolationError ''userId'')
      else
        let s = \<lparr>sid = fresh_id (map sid (sessions st)), userId = u, expiresAt = t\<rparr>
        in Inr (s, st\<lparr>sessions := sessions st @ [s]\<rparr>))"

definition update_session_expiresAt :: "store \<Rightarrow> int \<Rightarrow> datetime \<Rightarrow> store" where
  "update_session_expiresAt st i t =
     st\<lparr>sessions := map (\<lambda>s. if sid s = i then s\<lparr>expiresAt := t\<rparr> else s) (sessions st)\<rparr>"

section \<open>The explanation provider\<close>

text \<open>
  A reply of the remote service: its status and the JSON object of its body, a dictionary
  from field names to texts. The provider is a function from the emoji asked about to the
  reply; every request made is recorded in a list of the emojis asked about.
  \<open>raise_for_status\<close> lets a reply with a status from 200 to 299 through.
\<close>

record http_response =
  status_code :: nat
  json_body :: "string \<rightharpoonup> string"

type_synonym provider = "string \<Rightarrow> http_response"

definition is_success :: "nat \<Rightarrow> bool" where
  "is_success c = (200 \<le> c \<and> c \<le> 299)"

definition raise_for_status :: "http_response \<Rightarrow> exn + unit" where
  "raise_for_status response =
     (if is_success (status_code response) then Inr ()
      else Inl (HTTPStatusError (status_code response)))"

section \<open>explainEmoji\<close>

datatype EmojiExplanationResponse =
  EmojiExplanationResponse (emoji: string) (explanation: string)

definition fetch_explanation_from_groq :: "provider \<Rightarrow> string \<Rightarrow> (exn + string) \<times> string list" where
  "fetch_explanation_from_groq groq e =
     (let response = groq e;
          outcome =
            (case raise_for_status response of
               Inl err \<Rightarrow> Inl err
             | Inr _ \<Rightarrow>
                (let result = json_body response in
                 case result ''explanation'' of
                   None \<Rightarrow> Inl (KeyError ''explanation'')
                 | Some text \<Rightarrow> Inr text))
      in (outcome, [e]))"

definition explainEmoji ::
  "provider \<Rightarrow> store \<Rightarrow> string \<Rightarrow> (exn + EmojiExplanationResponse) \<times> store \<times> string list" where
  "explainEmoji groq st e =
     (let emoji_record = find_unique_emoji st e;
          cached = (case emoji_record of None \<Rightarrow> [] | Some r \<Rightarrow> include_explanations st r)
      in case cached of
           x # _ \<Rightarrow> (Inr (EmojiExplanationResponse e (content x)), st, [])
         | [] \<Rightarrow>
            (case fetch_explanation_from_groq groq e of
               (Inl err, calls) \<Rightarrow> (Inl err, st, calls)
             | (Inr explanation_text, calls) \<Rightarrow>
                (case (case emoji_record of
                         None \<Rightarrow> create_emoji st e
                       | Some r \<Rightarrow> Inr (r, st)) of
                   Inl err \<Rightarrow> (Inl err, st, calls)
                 | Inr (r, st1) \<Rightarrow>
                    (case create_explanation st1 explanation_text (eid r) 1 of
                       Inl err \<Rightarrow> (Inl err, st1, calls)
                     | Inr (_, st2) \<Rightarrow>
                        (Inr (EmojiExplanationResponse e explanation_text), st2, calls)))))"

section \<open>receiveEmoji\<close>

datatype EmojiResponseModel =
  EmojiResponseModel (is_valid: bool) (message: string)

text \<open>
  \<open>unicodedata.lookup\<close> finds a character by its name and raises \<open>KeyError\<close> when no
  character has the name. The table of character names is a parameter. Python's
  \<open>a in b\<close> on strings holds when \<open>a\<close> occurs in \<open>b\<close> as a contiguous part.
\<close>

definition unicodedata_lookup :: "(string \<Rightarrow> string option) \<Rightarrow> string \<Rightarrow> exn + string" where
  "unicodedata_lookup names n =
     (case names n of
        None \<Rightarrow> Inl (KeyError (''undefined character name '' @ [CHR 0x27] @ n @ [CHR 0x27]))
      | Some c \<Rightarrow> Inr c)"

definition str_in :: "string \<Rightarrow> string \<Rightarrow> bool" where
  "str_in a b = list_ex (\<lambda>i. take (length a) (drop i b) = a) [0..<Suc (length b)]"

definition is_emoji :: "(string \<Rightarrow> string option) \<Rightarrow> string \<Rightarrow> exn + bool" where
  "is_emoji names character =
     (case unicodedata_lookup names ''EMOJI'' of
        Inl err \<Rightarrow> Inl err
      | Inr found \<Rightarrow> Inr (str_in character found))"

definition fetch_emoji_explanation :: "provider \<Rightarrow> string \<Rightarrow> string option \<times> string list" where
  "fetch_emoji_explanation groq e =
     (let response = groq e
      in (if status_code response = 200 then json_body response ''explanation''
          else Some [],
          [e]))"

definition receiveEmoji ::
  "(string \<Rightarrow> string option) \<Rightarrow> provider \<Rightarrow> string \<Rightarrow> (exn + EmojiResponseModel) \<times> string list" where
  "receiveEmoji names groq e =
     (let not_valid = EmojiResponseModel False (e @ '' is not a valid emoji.'')
      in if e = [] then (Inr not_valid, [])
         else
           (case is_emoji names e of
              Inl err \<Rightarrow> (Inl err, [])
            | Inr False \<Rightarrow> (Inr not_valid, [])
            | Inr True \<Rightarrow>
               (case fetch_emoji_explanation groq e of
                  (Some (c # cs), calls) \<Rightarrow> (Inr (EmojiResponseModel True (c # cs)), calls)
                | (_, calls) \<Rightarrow>
                   (Inr (EmojiResponseModel False
                      ''Failed to fetch explanation for the submitted emoji.''), calls))))"

section \<open>loginUser\<close>

datatype UserLoginResponse =
  UserLoginResponse (session_token: string)

text \<open>
  The clock reading \<open>now\<close> and the text \<open>uuid4\<close> of the random UUID drawn are inputs.
\<close>

definition loginUser ::
  "store \<Rightarrow> datetime \<Rightarrow> string \<Rightarrow> string \<Rightarrow> string \<Rightarrow> (exn + UserLoginResponse) \<times> store" where
  "loginUser st now uuid4 username_arg password_arg =
     (case find_unique_user_by_email st username_arg of
        None \<Rightarrow> (Inl (ValueError ''User does not exist''), st)
      | Some user \<Rightarrow>
         (let simulated_correct_password = ''securepassword''
          in if password_arg \<noteq> simulated_correct_password
             then (Inl (ValueError ''Incorrect password''), st)
             else
               (let session_token = uuid4
                in case create_session st (uid user) (now + timedelta_days 1) of
                     Inl err \<Rightarrow> (Inl err, st)
                   | Inr (_, st') \<Rightarrow> (Inr (UserLoginResponse session_token), st'))))"

section \<open>logoutUser\<close>

datatype LogoutResponse =
  LogoutResponse (logout_message: string)

text \<open>
  Python's \<open>int\<close> applied to a string is a parameter \<open>int_of\<close>: \<open>None\<close> is its
  \<open>ValueError\<close>. \<open>logoutUser\<close> reads the clock twice, for the comparison and for the
  update.
\<close>

definition logoutUser ::
  "(string \<Rightarrow> int option) \<Rightarrow> store \<Rightarrow> datetime \<Rightarrow> datetime \<Rightarrow> string \<Rightarrow> LogoutResponse \<times> store" where
  "logoutUser int_of st now1 now2 token =
     (case int_of token of
        None \<Rightarrow> (LogoutResponse ''Invalid session token.'', st)
      | Some session_id \<Rightarrow>
         (case find_unique_session st session_id of
            None \<Rightarrow> (LogoutResponse ''No active session found for the given token.'', st)
          | Some session \<Rightarrow>
             if expiresAt session < now1
             then (LogoutResponse ''prisma.models.Session already expired.'', st)
             else (LogoutResponse ''User successfully logged out.'',
                   update_session_expiresAt st (sid session) now2)))"

section \<open>verifySession\<close>

datatype SessionVerifyResponse =
  SessionVerifyResponse (session_is_valid: bool) (user_role: Role)

text \<open>
  The response model declares \<open>user_role: prisma.enums.Role\<close>, a required field that is
  not optional: constructing the model with \<open>user_role=None\<close> fails its validation.
\<close>

fun new_SessionVerifyResponse :: "bool \<Rightarrow> Role option \<Rightarrow> exn + SessionVerifyResponse" where
  "new_SessionVerifyResponse v None = Inl (ValidationError ''user_role'')"
| "new_SessionVerifyResponse v (Some r) = Inr (SessionVerifyResponse v r)"

definition verifySession ::
  "(string \<Rightarrow> int option) \<Rightarrow> store \<Rightarrow> datetime \<Rightarrow> string \<Rightarrow> exn + SessionVerifyResponse" where
  "verifySession int_of st now session_token_arg =
     (case int_of session_token_arg of
        None \<Rightarrow> Inl (ValueError ''invalid literal for int() with base 10'')
      | Some i \<Rightarrow>
         (case find_unique_session st i of
            None \<Rightarrow> new_SessionVerifyResponse False None
          | Some session \<Rightarrow>
             if expiresAt session \<ge> now
             then
               (case find_unique_user_by_id st (userId session) of
                  None \<Rightarrow> Inl (AttributeError ''role'')
                | Some user \<Rightarrow> new_SessionVerifyResponse True (Some (role user)))
             else new_SessionVerifyResponse False None))"

section \<open>registerUser\<close>

datatype UserRegistrationResponse =
  UserRegistrationResponse (registration_message: string) (user_id: "int option")
    (error: "string option")

definition registerUser ::
  "store \<Rightarrow> string \<Rightarrow> string \<Rightarrow> string \<Rightarrow> Role option \<Rightarrow> UserRegistrationResponse \<times> store" where
  "registerUser st username_arg password_arg email_arg role_arg =
     (case find_unique_user_by_email st email_arg of
        Some existing_user \<Rightarrow>
          (UserRegistrationResponse ''Registration failed: Email already in use.'' None
             (Some ''A user with this email already exists.''), st)
      | None \<Rightarrow>
         (let final_role = (case role_arg of Some r \<Rightarrow> r | None \<Rightarrow> USER)
          in case create_user st username_arg password_arg email_arg final_role of
               Inr (new_user, st') \<Rightarrow>
                 (UserRegistrationResponse ''User registered successfully.''
                    (Some (uid new_user)) None, st')
             | Inl e \<Rightarrow>
                 (UserRegistrationResponse ''Registration failed due to an error.'' None
                    (Some (exn_str e)), st)))"

section \<open>updateServerResources\<close>

text \<open>
  The arguments are Python floats. The addition of two floats and the conversion of an
  integer constant to a float are parameters \<open>fadd\<close> and \<open>fint\<close>, so that nothing is
  assumed about rounding.
\<close>

datatype 'f ServerResourceUpdateResponse =
  ServerResourceUpdateResponse (cpu_updated_allocation: 'f) (ram_updated_allocation: 'f)
    (disk_space_updated_allocation: 'f) (update_message: string)

text \<open>
  The state a call runs in and leaves behind: the store behind the database client, and
  the numeric variables of the module, by name. The function declares no name
  \<open>global\<close>, so the six names it assigns are bound anew in the frame of each call, as
  the \<open>let\<close> binds them; its body makes no call to the database client and reads no
  variable of the module.
\<close>

record 'f process =
  database :: store
  module_variables :: "string \<rightharpoonup> 'f"

definition updateServerResources ::
  "('f \<Rightarrow> 'f \<Rightarrow> 'f) \<Rightarrow> (int \<Rightarrow> 'f) \<Rightarrow> 'f process \<Rightarrow> 'f \<Rightarrow> 'f \<Rightarrow> 'f \<Rightarrow>
   'f ServerResourceUpdateResponse \<times> 'f process" where
  "updateServerResources fadd fint ps cpu_allocation_increment ram_allocation_increment
       disk_space_allocation_increment =
     (let current_cpu = fint 100;
          current_ram = fint 40;
          current_disk = fint 200;
          updated_cpu = fadd current_cpu cpu_allocation_increment;
          updated_ram = fadd current_ram ram_allocation_increment;
          updated_disk = fadd current_disk disk_space_allocation_increment
      in (ServerResourceUpdateResponse updated_cpu updated_ram updated_disk
            ''Server resources successfully updated.'', ps))"

text \<open>
  Calls made one after another in one process: each starts in the state the call before
  it left behind, and the responses are collected in the order of the calls.
\<close>

fun updateServerResources_calls ::
  "('f \<Rightarrow> 'f \<Rightarrow> 'f) \<Rightarrow> (int \<Rightarrow> 'f) \<Rightarrow> 'f process \<Rightarrow> ('f \<times> 'f \<times> 'f) list \<Rightarrow>
   'f ServerResourceUpdateResponse list \<times> 'f process" where
  "updateServerResources_calls fadd fint ps [] = ([], ps)"
| "updateServerResources_calls fadd fint ps ((c, r, d) # rest) =
     (case updateServerResources fadd fint ps c r d of
        (response, ps1) \<Rightarrow>
          (case updateServerResources_calls fadd fint ps1 rest of
             (responses, ps2) \<Rightarrow> (response # responses, ps2)))"

section \<open>Stores that differ in passwords only\<close>

definition erase_password :: "User \<Rightarrow> User" where
  "erase_password u = u\<lparr>password := []\<rparr>"

definition same_but_passwords :: "store \<Rightarrow> store \<Rightarrow> bool" where
  "same_but_passwords st st' =
     (emojis st = emojis st' \<and> explanations st = explanations st'
      \<and> sessions st = sessions st'
      \<and> map erase_password (users st) = map erase_password (users st'))"

section \<open>Example stores\<close>

definition empty_store :: store where
  "empty_store = \<lparr>emojis = [], explanations = [], users = [], sessions = []\<rparr>"

definition smile :: string where
  "smile = [CHR 0xF0, CHR 0x9F, CHR 0x99, CHR 0x82]"

definition smile_store :: store where
  "smile_store =
     \<lparr>emojis = [\<lparr>eid = 1, symbol = smile\<rparr>],
      explanations =
        [\<lparr>xid = 1, content = ''a slightly smiling face'', emojiId = 1, updatedBy = 1\<rparr>,
         \<lparr>xid = 2, content = ''a friendly smile'', emojiId = 1, updatedBy = 1\<rparr>],
      users = [], sessions = []\<rparr>"

definition groq_ok :: provider where
  "groq_ok e = \<lparr>status_code = 200, json_body = [''explanation'' \<mapsto> ''a smiling face'']\<rparr>"

definition groq_no_field :: provider where
  "groq_no_field e = \<lparr>status_code = 200, json_body = Map.empty\<rparr>"

text \<open>
  A sample of a function \<open>int_of\<close>, for the examples: on a non-empty string of ASCII
  digits it gives the number Python's \<open>int\<close> gives; it reads no other string.
\<close>

definition is_digit :: "char \<Rightarrow> bool" where
  "is_digit c = (c \<in> set ''0123456789'')"

definition digit_value :: "char \<Rightarrow> nat" where
  "digit_value c = of_char c - 48"

definition int_decimal :: "string \<Rightarrow> int option" where
  "int_decimal s =
     (if s \<noteq> [] \<and> list_all is_digit s
      then Some (int (foldl (\<lambda>a c. 10 * a + digit_value c) 0 s))
      else None)"

text \<open>A sample of a table of character names.\<close>

definition character_names :: "string \<Rightarrow> string option" where
  "character_names =
     map_of [(''SLIGHTLY SMILING FACE'', smile), (''LATIN SMALL LETTER A'', ''a'')]"

definition alice :: User where
  "alice = \<lparr>uid = 1, username = ''alice'', password = ''wonderland'',
            email = ''alice@example.com'', role = ADMIN\<rparr>"

definition alice_store :: store where
  "alice_store =
     \<lparr>emojis = [], explanations = [], users = [alice],
      sessions = [\<lparr>sid = 1, userId = 1, expiresAt = 1000\<rparr>,
                  \<lparr>sid = 2, userId = 1, expiresAt = 5000\<rparr>]\<rparr>"

definition alice_store' :: store where
  "alice_store' = alice_store\<lparr>users := [alice\<lparr>password := ''securepassword''\<rparr>]\<rparr>"

text \<open>
  Two states of a process over Python's integers; in the first the module has a variable
  that is named as one of the function's local names is.
\<close>

definition busy_process :: "int process" where
  "busy_process = \<lparr>database = alice_store, module_variables = [''current_cpu'' \<mapsto> 500]\<rparr>"

definition idle_process :: "int process" where
  "idle_process = \<lparr>database = empty_store, module_variables = Map.empty\<rparr>"

section \<open>Facts about the store\<close>

lemma fresh_id_greater: "i \<in> set ids \<Longrightarrow> i < fresh_id ids"
  unfolding fresh_id_def by (induction ids) auto

lemma fresh_id_new: "fresh_id ids \<notin> set ids"
  using fresh_id_greater by blast

lemma find_unique_emoji_eid:
  "find_unique_emoji st s = Some r \<Longrightarrow> eid r \<in> set (map eid (emojis st))"
  unfolding find_unique_emoji_def by (auto simp: find_Some_iff)

lemma find_sid_map:
  "(\<And>x. sid (f x) = sid x) \<Longrightarrow>
   find (\<lambda>x. sid x = i) (map f xs) = map_option f (find (\<lambda>x. sid x = i) xs)"
  by (induction xs) simp_all

lemma find_unique_session_sid: "find_unique_session st i = Some s \<Longrightarrow> sid s = i"
  unfolding find_unique_session_def by (auto simp: find_Some_iff)


lemma find_unique_user_by_email_None:
  "find_unique_user_by_email st e = None \<longleftrightarrow> e \<notin> set (map email (users st))"
  unfolding find_unique_user_by_email_def by (auto simp: find_None_iff)

section \<open>The explanation cache\<close>

text \<open>
  C1: when the store holds an Emoji record for the symbol and at least one Explanation
  refers to it, \<open>explainEmoji\<close> returns the content of the first of them unchanged, makes
  no request to the provider (the list of requests is empty, whatever the provider would
  answer) and returns the store as it was.
\<close>

theorem explainEmoji_cached:
  assumes "find_unique_emoji st e = Some r"
    and "include_explanations st r = x # xs"
  shows "explainEmoji groq st e = (Inr (EmojiExplanationResponse e (content x)), st, [])"
  using assms by (simp add: explainEmoji_def)

theorem explainEmoji_cached_witness:
  "find_unique_emoji smile_store smile = Some \<lparr>eid = 1, symbol = smile\<rparr>
   \<and> include_explanations smile_store \<lparr>eid = 1, symbol = smile\<rparr>
       = [\<lparr>xid = 1, content = ''a slightly smiling face'', emojiId = 1, updatedBy = 1\<rparr>,
          \<lparr>xid = 2, content = ''a friendly smile'', emojiId = 1, updatedBy = 1\<rparr>]
   \<and> explainEmoji groq_no_field smile_store smile
       = (Inr (EmojiExplanationResponse smile ''a slightly smiling face''), smile_store, [])"
proof -
  have f: "find_unique_emoji smile_store smile = Some \<lparr>eid = 1, symbol = smile\<rparr>"
    by (simp add: find_unique_emoji_def smile_store_def)
  have i: "include_explanations smile_store \<lparr>eid = 1, symbol = smile\<rparr>
       = [\<lparr>xid = 1, content = ''a slightly smiling face'', emojiId = 1, updatedBy = 1\<rparr>,
          \<lparr>xid = 2, content = ''a friendly smile'', emojiId = 1, updatedBy = 1\<rparr>]"
    by (simp add: include_explanations_def smile_store_def)
  from explainEmoji_cached [OF f i, where groq = groq_no_field] f i show ?thesis by simp
qed

text \<open>
  C2: when the store holds no Emoji record for the symbol and the provider answers with a
  success status and an \<open>explanation\<close> field, \<open>explainEmoji\<close> makes exactly one request
  to the provider, appends one Emoji record for the symbol under an id no Emoji had,
  appends one Explanation record with the provider's text that refers to that id, leaves
  the other tables alone and returns the provider's text.
\<close>

theorem explainEmoji_unseen:
  assumes "find_unique_emoji st e = None"
    and "is_success (status_code (groq e))"
    and "json_body (groq e) ''explanation'' = Some text"
  shows "explainEmoji groq st e =
           (Inr (EmojiExplanationResponse e text),
            st\<lparr>emojis := emojis st @ [\<lparr>eid = fresh_id (map eid (emojis st)), symbol = e\<rparr>],
               explanations := explanations st @
                 [\<lparr>xid = fresh_id (map xid (explanations st)), content = text,
                   emojiId = fresh_id (map eid (emojis st)), updatedBy = 1\<rparr>]\<rparr>,
            [e])
         \<and> fresh_id (map eid (emojis st)) \<notin> set (map eid (emojis st))"
  using assms fresh_id_new [of "map eid (emojis st)"]
  by (simp add: explainEmoji_def fetch_explanation_from_groq_def raise_for_status_def
      create_emoji_def create_explanation_def Let_def)

theorem explainEmoji_unseen_witness:
  "find_unique_emoji empty_store smile = None
   \<and> is_success (status_code (groq_ok smile))
   \<and> json_body (groq_ok smile) ''explanation'' = Some ''a smiling face''
   \<and> explainEmoji groq_ok empty_store smile =
       (Inr (EmojiExplanationResponse smile ''a smiling face''),
        \<lparr>emojis = [\<lparr>eid = 1, symbol = smile\<rparr>],
         explanations = [\<lparr>xid = 1, content = ''a smiling face'', emojiId = 1, updatedBy = 1\<rparr>],
         users = [], sessions = []\<rparr>,
        [smile])"
proof -
  have f: "find_unique_emoji empty_store smile = None"
    by (simp add: find_unique_emoji_def empty_store_def)
  have s: "is_success (status_code (groq_ok smile))"
    by (simp add: is_success_def groq_ok_def)
  have m: "json_body (groq_ok smile) ''explanation'' = Some ''a smiling face''"
    by (simp add: groq_ok_def)
  from explainEmoji_unseen [where st = empty_store and e = smile and groq = groq_ok, OF f s m]
    f s m
  show ?thesis
    by (simp add: empty_store_def fresh_id_def)
qed

section \<open>A provider reply without the explanation field\<close>

lemma explainEmoji_missing_field_raises:
  assumes "find_unique_emoji st e = None"
    and "is_success (status_code (groq e))"
    and "json_body (groq e) ''explanation'' = None"
  shows "explainEmoji groq st e = (Inl (KeyError ''explanation''), st, [e])"
  using assms
  by (simp add: explainEmoji_def fetch_explanation_from_groq_def raise_for_status_def)

lemma fetch_emoji_explanation_missing_field:
  assumes "status_code (groq e) = 200"
    and "json_body (groq e) ''explanation'' = None"
  shows "fetch_emoji_explanation groq e = (None, [e])"
  using assms by (simp add: fetch_emoji_explanation_def)

lemma receiveEmoji_missing_field:
  assumes "e \<noteq> []" and "is_emoji names e = Inr True"
    and "status_code (groq e) = 200"
    and "json_body (groq e) ''explanation'' = None"
  shows "receiveEmoji names groq e =
           (Inr (EmojiResponseModel False
              ''Failed to fetch explanation for the submitted emoji.''), [e])"
  using assms by (simp add: receiveEmoji_def fetch_emoji_explanation_def)

text \<open>
  C3: the claim asks for a distinct outcome, and no crash, when the provider's reply
  lacks the explanation field. \<open>fetch_emoji_explanation\<close> reads the field with a default
  and returns \<open>None\<close> (\<open>fetch_emoji_explanation_missing_field\<close>), which
  \<open>receiveEmoji\<close> would answer with a failure message were its validation to let an
  emoji through; \<open>fetch_explanation_from_groq\<close> indexes the reply: on the empty store,
  for a reply with status 200 and no field, \<open>explainEmoji\<close> raises \<open>KeyError\<close> after
  its one request, and stores nothing.
\<close>

theorem explainEmoji_missing_field_KeyError:
  "explainEmoji groq_no_field empty_store smile
     = (Inl (KeyError ''explanation''), empty_store, [smile])"
  by (simp add: explainEmoji_def fetch_explanation_from_groq_def raise_for_status_def
      is_success_def groq_no_field_def find_unique_emoji_def empty_store_def)

section \<open>Emoji validation\<close>

lemma is_emoji_named:
  "names ''EMOJI'' = Some c \<Longrightarrow> is_emoji names character = Inr (str_in character c)"
  by (simp add: is_emoji_def unicodedata_lookup_def)

lemma receiveEmoji_raises:
  "names ''EMOJI'' = None \<Longrightarrow> e \<noteq> [] \<Longrightarrow>
   receiveEmoji names groq e
     = (Inl (KeyError (''undefined character name '' @ [CHR 0x27] @ ''EMOJI'' @ [CHR 0x27])), [])"
  by (simp add: receiveEmoji_def is_emoji_def unicodedata_lookup_def)

text \<open>
  C8: the claim, and the docstring of \<open>is_emoji\<close>, promise a boolean for every single
  character. \<open>is_emoji\<close> looks up a character named EMOJI; when the table of character
  names has none, as Unicode's has none, the lookup raises \<open>KeyError\<close> and so does
  \<open>is_emoji\<close>, for every argument.
\<close>

theorem is_emoji_raises:
  "names ''EMOJI'' = None \<Longrightarrow>
   is_emoji names character
     = Inl (KeyError (''undefined character name '' @ [CHR 0x27] @ ''EMOJI'' @ [CHR 0x27]))"
  by (simp add: is_emoji_def unicodedata_lookup_def)

theorem is_emoji_raises_witness:
  "character_names ''EMOJI'' = None
   \<and> is_emoji character_names smile
       = Inl (KeyError (''undefined character name '' @ [CHR 0x27] @ ''EMOJI'' @ [CHR 0x27]))"
proof -
  have n: "character_names ''EMOJI'' = None"
    by (simp add: character_names_def)
  from is_emoji_raises [where names = character_names and character = smile, OF n] n
  show ?thesis by simp
qed

section \<open>Session verification\<close>

lemma verifySession_valid:
  assumes "int_of token = Some i"
    and "find_unique_session st i = Some s"
    and "now \<le> expiresAt s"
    and "find_unique_user_by_id st (userId s) = Some u"
  shows "verifySession int_of st now token = Inr (SessionVerifyResponse True (role u))"
  using assms by (simp add: verifySession_def)

lemma verifySession_no_session_raises:
  assumes "int_of token = Some i" and "find_unique_session st i = None"
  shows "verifySession int_of st now token = Inl (ValidationError ''user_role'')"
  using assms by (simp add: verifySession_def)

lemma verifySession_expired_raises:
  assumes "int_of token = Some i"
    and "find_unique_session st i = Some s"
    and "expiresAt s < now"
  shows "verifySession int_of st now token = Inl (ValidationError ''user_role'')"
  using assms by (simp add: verifySession_def)

lemma verifySession_never_invalid:
  "verifySession int_of st now token \<noteq> Inr (SessionVerifyResponse False r)"
  by (simp add: verifySession_def split: option.splits)

text \<open>
  C6: the claim has \<open>verifySession\<close> return \<open>is_valid=false\<close> for a session that has
  expired and for a token that matches no session. The function builds that answer with
  \<open>user_role=None\<close>, which the response model rejects: at time 2000, for the session 1
  that expired at 1000 and for the unknown session 3, it raises \<open>ValidationError\<close>; for
  the session 2, which expires at 5000, it returns \<open>is_valid=true\<close> and the role of the
  session's user.
\<close>

theorem verifySession_invalid_raises:
  "verifySession int_decimal alice_store 2000 ''1'' = Inl (ValidationError ''user_role'')
   \<and> verifySession int_decimal alice_store 2000 ''3'' = Inl (ValidationError ''user_role'')
   \<and> verifySession int_decimal alice_store 2000 ''2'' = Inr (SessionVerifyResponse True ADMIN)"
  by (simp add: verifySession_def int_decimal_def is_digit_def digit_value_def
      find_unique_session_def find_unique_user_by_id_def alice_store_def alice_def)

section \<open>Server resources\<close>

lemma updateServerResources_call:
  "updateServerResources fadd fint ps c r d
     = (ServerResourceUpdateResponse (fadd (fint 100) c) (fadd (fint 40) r)
          (fadd (fint 200) d) ''Server resources successfully updated.'', ps)"
  by (simp add: updateServerResources_def)

lemma updateServerResources_example:
  "fst (updateServerResources (+) real_of_int ps 10 5 20)
     = ServerResourceUpdateResponse 110 45 220 ''Server resources successfully updated.''"
  by (simp add: updateServerResources_def)

text \<open>
  C10: \<open>updateServerResources\<close> is a function of its three increments alone. In every
  run of calls made one after another, from every state of the process, each call
  reports the sums of 100, 40 and 200 with its own three increments, whatever the calls
  before it were given, and the state after the run is the state before it: the store
  and the module's variables are unchanged, and no adjustment is carried from one call
  to the next. The same arguments give the same response in any two states.
\<close>

theorem updateServerResources_stateless:
  "updateServerResources_calls fadd fint ps calls
     = (map (\<lambda>(c, r, d). ServerResourceUpdateResponse (fadd (fint 100) c)
              (fadd (fint 40) r) (fadd (fint 200) d)
              ''Server resources successfully updated.'') calls,
        ps)
   \<and> fst (updateServerResources fadd fint ps c r d)
       = fst (updateServerResources fadd fint ps' c r d)
   \<and> snd (updateServerResources fadd fint ps c r d) = ps"
proof (intro conjI)
  show "updateServerResources_calls fadd fint ps calls
     = (map (\<lambda>(c, r, d). ServerResourceUpdateResponse (fadd (fint 100) c)
              (fadd (fint 40) r) (fadd (fint 200) d)
              ''Server resources successfully updated.'') calls,
        ps)"
  proof (induction calls arbitrary: ps)
    case Nil
    show ?case by simp
  next
    case (Cons call calls)
    obtain c r d where call: "call = (c, r, d)"
      by (cases call) auto
    show ?case
      unfolding call by (simp add: updateServerResources_call Cons.IH)
  qed
next
  show "fst (updateServerResources fadd fint ps c r d)
      = fst (updateServerResources fadd fint ps' c r d)"
    by (simp add: updateServerResources_call)
next
  show "snd (updateServerResources fadd fint ps c r d) = ps"
    by (simp add: updateServerResources_call)
qed

theorem updateServerResources_stateless_witness:
  "updateServerResources_calls (+) (\<lambda>n. n) busy_process [(10, 5, 20), (10, 5, 20), (-30, 0, 1)]
     = ([ServerResourceUpdateResponse 110 45 220 ''Server resources successfully updated.'',
         ServerResourceUpdateResponse 110 45 220 ''Server resources successfully updated.'',
         ServerResourceUpdateResponse 70 40 201 ''Server resources successfully updated.''],
        busy_process)
   \<and> fst (updateServerResources (+) (\<lambda>n. n) busy_process 10 5 20)
       = fst (updateServerResources (+) (\<lambda>n. n) idle_process 10 5 20)
   \<and> busy_process \<noteq> idle_process"
proof -
  have d: "busy_process \<noteq> idle_process"
  proof
    assume "busy_process = idle_process"
    then have "database busy_process = database idle_process"
      by simp
    then show False
      by (simp add: busy_process_def idle_process_def alice_store_def empty_store_def)
  qed
  from updateServerResources_stateless [of "(+)" "\<lambda>n. n" busy_process
      "[(10, 5, 20), (10, 5, 20), (-30, 0, 1)]" 10 5 20 idle_process] d
  show ?thesis by simp
qed

section \<open>Login\<close>




section \<open>Logout\<close>

text \<open>
  C5: \<open>logoutUser\<close> reads the token as a number and answers "Invalid session token."
  when it is none; it answers "No active session found for the given token." when no
  Session has that id, and "prisma.models.Session already expired." when the Session's
  expiry is before the clock reading; in these three cases the store is unchanged.
  Otherwise it answers "User successfully logged out." and the store differs in that the
  Session's expiry is the second clock reading.
\<close>

theorem logoutUser_outcomes:
  "(int_of token = None \<longrightarrow>
      logoutUser int_of st now1 now2 token = (LogoutResponse ''Invalid session token.'', st))
   \<and> (int_of token = Some i \<and> find_unique_session st i = None \<longrightarrow>
      logoutUser int_of st now1 now2 token
        = (LogoutResponse ''No active session found for the given token.'', st))
   \<and> (int_of token = Some i \<and> find_unique_session st i = Some s \<and> expiresAt s < now1 \<longrightarrow>
      logoutUser int_of st now1 now2 token
        = (LogoutResponse ''prisma.models.Session already expired.'', st))
   \<and> (int_of token = Some i \<and> find_unique_session st i = Some s \<and> \<not> expiresAt s < now1 \<longrightarrow>
      logoutUser int_of st now1 now2 token
        = (LogoutResponse ''User successfully logged out.'',
           st\<lparr>sessions :=
                map (\<lambda>x. if sid x = i then x\<lparr>expiresAt := now2\<rparr> else x) (sessions st)\<rparr>)
      \<and> find_unique_session (snd (logoutUser int_of st now1 now2 token)) i
          = Some (s\<lparr>expiresAt := now2\<rparr>))"
proof (intro conjI impI)
  assume "int_of token = None"
  then show "logoutUser int_of st now1 now2 token
      = (LogoutResponse ''Invalid session token.'', st)"
    by (simp add: logoutUser_def)
next
  assume "int_of token = Some i \<and> find_unique_session st i = None"
  then show "logoutUser int_of st now1 now2 token
      = (LogoutResponse ''No active session found for the given token.'', st)"
    by (simp add: logoutUser_def)
next
  assume "int_of token = Some i \<and> find_unique_session st i = Some s \<and> expiresAt s < now1"
  then show "logoutUser int_of st now1 now2 token
      = (LogoutResponse ''prisma.models.Session already expired.'', st)"
    by (simp add: logoutUser_def)
next
  assume a: "int_of token = Some i \<and> find_unique_session st i = Some s \<and> \<not> expiresAt s < now1"
  then have s: "sid s = i"
    using find_unique_session_sid by blast
  with a show r: "logoutUser int_of st now1 now2 token
        = (LogoutResponse ''User successfully logged out.'',
           st\<lparr>sessions :=
                map (\<lambda>x. if sid x = i then x\<lparr>expiresAt := now2\<rparr> else x) (sessions st)\<rparr>)"
    by (simp add: logoutUser_def update_session_expiresAt_def)
  have "find (\<lambda>x. sid x = i)
          (map (\<lambda>x. if sid x = i then x\<lparr>expiresAt := now2\<rparr> else x) (sessions st))
        = map_option (\<lambda>x. if sid x = i then x\<lparr>expiresAt := now2\<rparr> else x)
            (find (\<lambda>x. sid x = i) (sessions st))"
    by (rule find_sid_map) simp
  with a s show "find_unique_session (snd (logoutUser int_of st now1 now2 token)) i
      = Some (s\<lparr>expiresAt := now2\<rparr>)"
    by (simp add: r find_unique_session_def)
qed

theorem logoutUser_outcomes_witness:
  "int_decimal ''abc'' = None
   \<and> logoutUser int_decimal alice_store 2000 2001 ''abc''
       = (LogoutResponse ''Invalid session token.'', alice_store)
   \<and> int_decimal ''3'' = Some 3 \<and> find_unique_session alice_store 3 = None
   \<and> logoutUser int_decimal alice_store 2000 2001 ''3''
       = (LogoutResponse ''No active session found for the given token.'', alice_store)
   \<and> int_decimal ''1'' = Some 1
   \<and> find_unique_session alice_store 1 = Some \<lparr>sid = 1, userId = 1, expiresAt = 1000\<rparr>
   \<and> logoutUser int_decimal alice_store 2000 2001 ''1''
       = (LogoutResponse ''prisma.models.Session already expired.'', alice_store)
   \<and> int_decimal ''2'' = Some 2
   \<and> find_unique_session alice_store 2 = Some \<lparr>sid = 2, userId = 1, expiresAt = 5000\<rparr>
   \<and> logoutUser int_decimal alice_store 2000 2001 ''2''
       = (LogoutResponse ''User successfully logged out.'',
          alice_store\<lparr>sessions := [\<lparr>sid = 1, userId = 1, expiresAt = 1000\<rparr>,
                                    \<lparr>sid = 2, userId = 1, expiresAt = 2001\<rparr>]\<rparr>)"
proof -
  have p: "int_decimal ''abc'' = None" "int_decimal ''3'' = Some 3"
    "int_decimal ''1'' = Some 1" "int_decimal ''2'' = Some 2"
    by (simp_all add: int_decimal_def is_digit_def digit_value_def)
  have f: "find_unique_session alice_store 3 = None"
    "find_unique_session alice_store 1 = Some \<lparr>sid = 1, userId = 1, expiresAt = 1000\<rparr>"
    "find_unique_session alice_store 2 = Some \<lparr>sid = 2, userId = 1, expiresAt = 5000\<rparr>"
    by (simp_all add: find_unique_session_def alice_store_def)
  have m: "sessions alice_store = [\<lparr>sid = 1, userId = 1, expiresAt = 1000\<rparr>,
                                   \<lparr>sid = 2, userId = 1, expiresAt = 5000\<rparr>]"
    by (simp add: alice_store_def)
  from logoutUser_outcomes [of int_decimal "''abc''" alice_store 2000 2001 3
      "\<lparr>sid = 1, userId = 1, expiresAt = 1000\<rparr>"]
    logoutUser_outcomes [of int_decimal "''3''" alice_store 2000 2001 3
      "\<lparr>sid = 1, userId = 1, expiresAt = 1000\<rparr>"]
    logoutUser_outcomes [of int_decimal "''1''" alice_store 2000 2001 1
      "\<lparr>sid = 1, userId = 1, expiresAt = 1000\<rparr>"]
    logoutUser_outcomes [of int_decimal "''2''" alice_store 2000 2001 2
      "\<lparr>sid = 2, userId = 1, expiresAt = 5000\<rparr>"]
    p f m
  show ?thesis by simp
qed

section \<open>Registration\<close>

lemma registerUser_twice:
  assumes "registerUser st n p e r = (resp, st')"
  shows "registerUser st' n' p' e r'
           = (UserRegistrationResponse ''Registration failed: Email already in use.'' None
                (Some ''A user with this email already exists.''), st')"
proof (cases "find_unique_user_by_email st e")
  case None
  with assms have "users st' = users st @
      [\<lparr>uid = fresh_id (map uid (users st)), username = n, password = p, email = e,
        role = (case r of Some x \<Rightarrow> x | None \<Rightarrow> USER)\<rparr>]"
    by (auto simp: registerUser_def create_user_def Let_def)
  then have "e \<in> set (map email (users st'))"
    by simp
  then have "find_unique_user_by_email st' e \<noteq> None"
    by (simp add: find_unique_user_by_email_None)
  then show ?thesis
    by (auto simp: registerUser_def)
next
  case (Some u)
  with assms have "st' = st"
    by (simp add: registerUser_def)
  with Some show ?thesis
    by (simp add: registerUser_def)
qed

text \<open>
  C7: when a User of the store has the given e-mail address, \<open>registerUser\<close> answers
  "Registration failed: Email already in use." with the error "A user with this email
  already exists." and the store is unchanged; otherwise it appends one User with the
  given name, password and address, under an id no User had, whose role is the given
  role, or \<open>USER\<close> when none is given.
\<close>

theorem registerUser_outcomes:
  "(e \<in> set (map email (users st)) \<longrightarrow>
      registerUser st n p e r
        = (UserRegistrationResponse ''Registration failed: Email already in use.'' None
             (Some ''A user with this email already exists.''), st))
   \<and> (e \<notin> set (map email (users st)) \<longrightarrow>
      registerUser st n p e r
        = (UserRegistrationResponse ''User registered successfully.''
             (Some (fresh_id (map uid (users st)))) None,
           st\<lparr>users := users st @
                [\<lparr>uid = fresh_id (map uid (users st)), username = n, password = p,
                  email = e, role = (case r of None \<Rightarrow> USER | Some x \<Rightarrow> x)\<rparr>]\<rparr>)
      \<and> fresh_id (map uid (users st)) \<notin> set (map uid (users st)))"
proof (intro conjI impI)
  assume "e \<in> set (map email (users st))"
  then have "find_unique_user_by_email st e \<noteq> None"
    by (simp add: find_unique_user_by_email_None)
  then show "registerUser st n p e r
        = (UserRegistrationResponse ''Registration failed: Email already in use.'' None
             (Some ''A user with this email already exists.''), st)"
    by (auto simp: registerUser_def)
next
  assume "e \<notin> set (map email (users st))"
  then have "find_unique_user_by_email st e = None"
    by (simp add: find_unique_user_by_email_None)
  then show "registerUser st n p e r
        = (UserRegistrationResponse ''User registered successfully.''
             (Some (fresh_id (map uid (users st)))) None,
           st\<lparr>users := users st @
                [\<lparr>uid = fresh_id (map uid (users st)), username = n, password = p,
                  email = e, role = (case r of None \<Rightarrow> USER | Some x \<Rightarrow> x)\<rparr>]\<rparr>)"
    by (simp add: registerUser_def create_user_def Let_def split: option.splits)
next
  show "fresh_id (map uid (users st)) \<notin> set (map uid (users st))"
    by (rule fresh_id_new)
qed

theorem registerUser_outcomes_witness:
  "''alice@example.com'' \<in> set (map email (users alice_store))
   \<and> registerUser alice_store ''alice2'' ''pw'' ''alice@example.com'' (Some ADMIN)
       = (UserRegistrationResponse ''Registration failed: Email already in use.'' None
            (Some ''A user with this email already exists.''), alice_store)
   \<and> ''bob@example.com'' \<notin> set (map email (users alice_store))
   \<and> registerUser alice_store ''bob'' ''pw'' ''bob@example.com'' None
       = (UserRegistrationResponse ''User registered successfully.'' (Some 2) None,
          alice_store\<lparr>users := [alice, \<lparr>uid = 2, username = ''bob'', password = ''pw'',
            email = ''bob@example.com'', role = USER\<rparr>]\<rparr>)"
proof -
  have m: "''alice@example.com'' \<in> set (map email (users alice_store))"
    "''bob@example.com'' \<notin> set (map email (users alice_store))"
    by (simp_all add: alice_store_def alice_def)
  have i: "fresh_id (map uid (users alice_store)) = 2" "users alice_store = [alice]"
    by (simp_all add: fresh_id_def alice_store_def alice_def)
  from registerUser_outcomes [of "''alice@example.com''" alice_store "''alice2''" "''pw''"
      "Some ADMIN"]
    registerUser_outcomes [of "''bob@example.com''" alice_store "''bob''" "''pw''" None]
    m i
  show ?thesis by simp
qed

section \<open>The stored password\<close>

lemma erase_password_fields:
  "erase_password u = erase_password u' \<Longrightarrow> email u = email u' \<and> uid u = uid u'"
  by (cases u, cases u') (simp add: erase_password_def)

lemma find_email_erased:
  "map erase_password us = map erase_password us' \<Longrightarrow>
   map_option erase_password (find (\<lambda>u. email u = e) us)
     = map_option erase_password (find (\<lambda>u. email u = e) us')"
proof (induction us arbitrary: us')
  case Nil
  then show ?case by simp
next
  case (Cons u us)
  then obtain u' vs where us': "us' = u' # vs"
    and u: "erase_password u = erase_password u'"
    and rest: "map erase_password us = map erase_password vs"
    by (cases us') auto
  from u have "email u = email u'"
    using erase_password_fields by blast
  with Cons.IH [OF rest] u us' show ?case
    by simp
qed

lemma map_uid_erased:
  "map erase_password us = map erase_password us' \<Longrightarrow> map uid us = map uid us'"
proof (induction us arbitrary: us')
  case Nil
  then show ?case by simp
next
  case (Cons u us)
  then obtain u' vs where us': "us' = u' # vs"
    and u: "erase_password u = erase_password u'"
    and rest: "map erase_password us = map erase_password vs"
    by (cases us') auto
  from u have "uid u = uid u'"
    using erase_password_fields by blast
  with Cons.IH [OF rest] us' show ?case
    by simp
qed

text \<open>
  C9: on two stores that differ at most in the passwords of their Users, \<open>loginUser\<close>
  has the same outcome for every username and password given: the same exception or the
  same response, and stores that again differ at most in the passwords.
\<close>

theorem loginUser_ignores_stored_password:
  assumes "same_but_passwords st st'"
  shows "fst (loginUser st now uuid4 name pw) = fst (loginUser st' now uuid4 name pw)
         \<and> same_but_passwords (snd (loginUser st now uuid4 name pw))
             (snd (loginUser st' now uuid4 name pw))"
proof -
  from assms have us: "map erase_password (users st) = map erase_password (users st')"
    and ss: "sessions st = sessions st'"
    by (simp_all add: same_but_passwords_def)
  have found: "map_option erase_password (find_unique_user_by_email st name)
      = map_option erase_password (find_unique_user_by_email st' name)"
    unfolding find_unique_user_by_email_def using us by (rule find_email_erased)
  have ids: "map uid (users st) = map uid (users st')"
    using us by (rule map_uid_erased)
  show ?thesis
  proof (cases "find_unique_user_by_email st name")
    case None
    with found have "find_unique_user_by_email st' name = None"
      by simp
    with None assms show ?thesis
      by (simp add: loginUser_def)
  next
    case (Some u)
    with found obtain u' where u': "find_unique_user_by_email st' name = Some u'"
      and e: "erase_password u = erase_password u'"
      by (cases "find_unique_user_by_email st' name") auto
    from e have "uid u = uid u'"
      using erase_password_fields by blast
    with Some u' ids ss assms show ?thesis
      by (simp add: loginUser_def create_session_def same_but_passwords_def Let_def)
  qed
qed

theorem loginUser_ignores_stored_password_witness:
  "same_but_passwords alice_store alice_store'
   \<and> users alice_store \<noteq> users alice_store'
   \<and> fst (loginUser alice_store 2000 ''token'' ''alice@example.com'' ''wonderland'')
       = Inl (ValueError ''Incorrect password'')
   \<and> fst (loginUser alice_store' 2000 ''token'' ''alice@example.com'' ''wonderland'')
       = Inl (ValueError ''Incorrect password'')"
proof -
  have s: "same_but_passwords alice_store alice_store'"
    by (simp add: same_but_passwords_def alice_store'_def alice_store_def alice_def
        erase_password_def)
  have d: "users alice_store \<noteq> users alice_store'"
    by (simp add: alice_store'_def alice_store_def alice_def)
  have l: "fst (loginUser alice_store 2000 ''token'' ''alice@example.com'' ''wonderland'')
       = Inl (ValueError ''Incorrect password'')"
    by (simp add: loginUser_def find_unique_user_by_email_def alice_store_def alice_def)
  from loginUser_ignores_stored_password [OF s, of 2000 "''token''" "''alice@example.com''"
      "''wonderland''"] s d l
  show ?thesis by simp
qed

end
